theory Spec2Isabelle
  imports Main "HOL-Library.Sublist"
begin

section \<open>Data model\<close>

text \<open>
  The backend is one Express application: a Mongoose \<open>User\<close> model, the
  \<open>authenticateToken\<close> middleware and the route handlers. Identifiers
  (\<open>_id\<close>, an ObjectId) are kept as their text; dates are kept as a number of
  milliseconds.
\<close>

type_synonym object_id = string
type_synonym timestamp = nat

text \<open>
  The JSON values a request body field or a catalog answer field is modelled with:
  the field is absent (\<open>undefined\<close>), \<open>null\<close>, an integer number or a string.
\<close>

datatype jsval = JUndefined | JNull | JNum int | JStr string

text \<open>JavaScript's \<open>!v\<close> on these values.\<close>

fun falsy :: "jsval \<Rightarrow> bool" where
  "falsy JUndefined = True"
| "falsy JNull = True"
| "falsy (JNum n) = (n = 0)"
| "falsy (JStr s) = (s = [])"

text \<open>
  The schema: \<open>favorites: [{ movieId: Number, addedAt: Date }]\<close>, the watchlists
  and the user. The \<open>createdAt\<close> and \<open>updatedAt\<close> stamps of the user, which no
  handler reads, are left out.
\<close>

record favorite =
  movieId :: int
  addedAt :: timestamp

record watchlist =
  name :: string
  movies :: "favorite list"
  createdAt :: timestamp

record user =
  uid :: object_id
  username :: string
  email :: string
  password :: string
  favorites :: "favorite list"
  watchlists :: "watchlist list"

text \<open>What \<open>.select('-password')\<close> returns: the document without the password path.\<close>

record selected_user =
  sel_id :: object_id
  sel_username :: string
  sel_email :: string
  sel_favorites :: "favorite list"
  sel_watchlists :: "watchlist list"

definition select_minus_password :: "user \<Rightarrow> selected_user" where
  "select_minus_password u =
     \<lparr>sel_id = uid u, sel_username = username u, sel_email = email u,
      sel_favorites = favorites u, sel_watchlists = watchlists u\<rparr>"

text \<open>The payload given to \<open>jwt.sign\<close> and read back from \<open>jwt.verify\<close>.\<close>

record jwt_payload =
  userId :: object_id
  payload_email :: string

text \<open>The six fields the favorites handler reads from \<open>response.data\<close>.\<close>

record movie_data =
  data_id :: jsval
  data_title :: jsval
  data_overview :: jsval
  data_poster_path :: jsval
  data_release_date :: jsval
  data_vote_average :: jsval

record favorite_movie =
  fm_id :: jsval
  fm_title :: jsval
  fm_overview :: jsval
  fm_poster_path :: jsval
  fm_release_date :: jsval
  fm_vote_average :: jsval
  fm_addedAt :: timestamp

text \<open>The user object of the register and login answers: \<open>{ id, username, email }\<close>.\<close>

record user_json =
  json_id :: object_id
  json_username :: string
  json_email :: string

text \<open>
  The JSON bodies the handlers send: \<open>{success, message}\<close>, the register and login
  answer \<open>{success: true, message, user, token}\<close> and the favorites answer
  \<open>{success: true, favorites}\<close>.
\<close>

datatype resp_body =
    Msg bool string
  | AuthOk string user_json string
  | FavoritesOk "favorite_movie list"

record response =
  status :: nat
  body :: resp_body

section \<open>The libraries the code calls\<close>

text \<open>
  \<open>jsonwebtoken\<close>, \<open>bcryptjs\<close>, the catalog's HTTP client and Mongoose's casting
  are not code of this application; they are parameters. \<open>jwt_verify\<close> is
  \<open>jwt.verify(token, secret)\<close> at the time of the request, \<open>None\<close> when it throws;
  \<open>tmdb_get\<close> is \<open>tmdbAPI.get(`/movie/${id}`)\<close>, \<open>None\<close> when the call is
  rejected or its answer has no data to read, and the same for the same movie
  during one request; \<open>cast_number\<close> is Mongoose's cast of a string to the \<open>Number\<close> path,
  \<open>None\<close> when the cast fails; \<open>date_now\<close> is \<open>Date.now\<close> and
  \<open>new_ObjectId\<close> the identifier the \<open>User\<close> constructor draws. The signing
  secret is taken as configured and the collection as reachable: \<open>jwt.sign\<close>,
  \<open>bcrypt.hash\<close>, \<open>bcrypt.compare\<close> and the queries return, so the outer
  \<open>catch\<close> of the register and login handlers is not reached.
\<close>

record env =
  jwt_verify :: "string \<Rightarrow> jwt_payload option"
  jwt_sign :: "jwt_payload \<Rightarrow> string"
  bcrypt_hash :: "string \<Rightarrow> string"
  bcrypt_compare :: "string \<Rightarrow> string \<Rightarrow> bool"
  tmdb_get :: "int \<Rightarrow> movie_data option"
  cast_number :: "string \<Rightarrow> int option"
  date_now :: timestamp
  new_ObjectId :: object_id

text \<open>
  Every call that leaves the handler is recorded, in the order the code makes it:
  the token library, the password library, the collection (\<open>FindById\<close>,
  \<open>FindOneEmailOrUsername\<close> and \<open>FindOneEmail\<close> read it, \<open>InsertOne\<close> and
  \<open>UpdateOne\<close> write to it) and the catalog.
\<close>

datatype effect =
    JwtVerify string
  | JwtSign jwt_payload
  | BcryptHash string
  | BcryptCompare string string
  | FindById object_id
  | FindOneEmailOrUsername string string
  | FindOneEmail string
  | InsertOne object_id
  | UpdateOne object_id
  | TmdbGet int

text \<open>
  A run of a handler: what it answered (or handed on), the collection afterwards
  and the calls it made.
\<close>

record 'a run =
  out :: 'a
  db :: "user list"
  calls :: "effect list"

section \<open>The collection\<close>

definition findById :: "user list \<Rightarrow> object_id \<Rightarrow> user option" where
  "findById users i = find (\<lambda>u. uid u = i) users"

section \<open>The authentication middleware\<close>

text \<open>\<open>s.split(' ')\<close>: the pieces between the separators, at least one piece.\<close>

fun split_str :: "char \<Rightarrow> string \<Rightarrow> string list" where
  "split_str sep [] = [[]]"
| "split_str sep (c # cs) =
     (if c = sep then [] # split_str sep cs
      else (case split_str sep cs of [] \<Rightarrow> [[c]] | w # ws \<Rightarrow> (c # w) # ws))"

text \<open>\<open>xs[i]\<close>, \<open>undefined\<close> out of range.\<close>

definition at_index :: "'a list \<Rightarrow> nat \<Rightarrow> 'a option" where
  "at_index xs i = (if i < length xs then Some (xs ! i) else None)"

text \<open>\<open>req.headers.authorization?.split(' ')[1]\<close>; the header may be absent.\<close>

definition header_token :: "string option \<Rightarrow> string option" where
  "header_token authorization =
     (case authorization of
        None \<Rightarrow> None
      | Some h \<Rightarrow> at_index (split_str CHR '' '' h) 1)"

text \<open>
  The middleware either answers itself or sets \<open>req.user\<close> and calls \<open>next()\<close>.
\<close>

datatype gate_outcome = Respond response | Next selected_user

definition authenticateToken :: "env \<Rightarrow> user list \<Rightarrow> string option \<Rightarrow> gate_outcome run" where
  "authenticateToken e users authorization =
     (case header_token authorization of
        None \<Rightarrow>
          \<lparr>out = Respond \<lparr>status = 401, body = Msg False ''Access token required''\<rparr>,
           db = users, calls = []\<rparr>
      | Some token \<Rightarrow>
          if token = [] then
            \<lparr>out = Respond \<lparr>status = 401, body = Msg False ''Access token required''\<rparr>,
             db = users, calls = []\<rparr>
          else
            (case jwt_verify e token of
               None \<Rightarrow>
                 \<lparr>out = Respond \<lparr>status = 401, body = Msg False ''Invalid token''\<rparr>,
                  db = users, calls = [JwtVerify token]\<rparr>
             | Some decoded \<Rightarrow>
                 (case findById users (userId decoded) of
                    None \<Rightarrow>
                      \<lparr>out = Respond \<lparr>status = 401, body = Msg False ''Invalid token''\<rparr>,
                       db = users,
                       calls = [JwtVerify token, FindById (userId decoded)]\<rparr>
                  | Some u \<Rightarrow>
                      \<lparr>out = Next (select_minus_password u),
                       db = users,
                       calls = [JwtVerify token, FindById (userId decoded)]\<rparr>)))"

section \<open>Documents and the pre-save hook\<close>

text \<open>
  A Mongoose document is the record together with its change tracking. Of the
  tracking only what the code asks is kept: whether the document is new and
  whether \<open>isModified('password')\<close> holds.
\<close>

record document =
  doc :: user
  isNew :: bool
  password_modified :: bool

text \<open>
  \<open>new User({ username, email, password })\<close>: a new document, every given path
  marked modified, the lists empty.
\<close>

definition new_User :: "env \<Rightarrow> string \<Rightarrow> string \<Rightarrow> string \<Rightarrow> document" where
  "new_User e un em pw =
     \<lparr>doc = \<lparr>uid = new_ObjectId e, username = un, email = em, password = pw,
             favorites = [], watchlists = []\<rparr>,
      isNew = True, password_modified = True\<rparr>"

text \<open>A document a query returns: nothing is modified yet.\<close>

definition hydrate :: "user \<Rightarrow> document" where
  "hydrate u = \<lparr>doc = u, isNew = False, password_modified = False\<rparr>"

text \<open>
  \<open>userSchema.pre('save', ...)\<close>: return at once unless the password path is
  modified, else replace the password by \<open>bcrypt.hash(this.password, 12)\<close>.
\<close>

definition pre_save :: "env \<Rightarrow> document \<Rightarrow> document \<times> effect list" where
  "pre_save e d =
     (if \<not> password_modified d then (d, [])
      else (d\<lparr>doc := (doc d)\<lparr>password := bcrypt_hash e (password (doc d))\<rparr>\<rparr>,
            [BcryptHash (password (doc d))]))"

text \<open>The write of an existing document goes to the first record with its \<open>_id\<close>.\<close>

fun updateOne :: "user list \<Rightarrow> user \<Rightarrow> user list" where
  "updateOne [] u = []"
| "updateOne (x # xs) u = (if uid x = uid u then u # xs else x # updateOne xs u)"

text \<open>
  \<open>doc.save()\<close>: the hook runs, then a new document is inserted and an existing
  one is written back; afterwards the document is neither new nor modified.
\<close>

definition save :: "env \<Rightarrow> user list \<Rightarrow> document \<Rightarrow> document run" where
  "save e users d =
     (case pre_save e d of
        (d', hook_calls) \<Rightarrow>
          if isNew d' then
            \<lparr>out = d'\<lparr>isNew := False, password_modified := False\<rparr>,
             db = users @ [doc d'],
             calls = hook_calls @ [InsertOne (uid (doc d'))]\<rparr>
          else
            \<lparr>out = d'\<lparr>isNew := False, password_modified := False\<rparr>,
             db = updateOne users (doc d'),
             calls = hook_calls @ [UpdateOne (uid (doc d'))]\<rparr>)"

section \<open>Registration and login\<close>

text \<open>
  The body fields of the two handlers are modelled as absent or a string.
  \<open>truthy_str\<close> is the field when \<open>!field\<close> is false.
\<close>

record register_body =
  reg_username :: "string option"
  reg_email :: "string option"
  reg_password :: "string option"

record login_body =
  login_email :: "string option"
  login_password :: "string option"

definition truthy_str :: "string option \<Rightarrow> string option" where
  "truthy_str f = (case f of None \<Rightarrow> None | Some s \<Rightarrow> if s = [] then None else Some s)"

text \<open>\<open>User.findOne({ $or: [{ email }, { username }] })\<close> and \<open>User.findOne({ email })\<close>.\<close>

definition findOne_email_or_username :: "user list \<Rightarrow> string \<Rightarrow> string \<Rightarrow> user option" where
  "findOne_email_or_username users em un = find (\<lambda>u. email u = em \<or> username u = un) users"

definition findOne_email :: "user list \<Rightarrow> string \<Rightarrow> user option" where
  "findOne_email users em = find (\<lambda>u. email u = em) users"

text \<open>\<open>app.post('/api/auth/register', ...)\<close>.\<close>

definition post_auth_register :: "env \<Rightarrow> user list \<Rightarrow> register_body \<Rightarrow> response run" where
  "post_auth_register e users b =
     (case (truthy_str (reg_username b), truthy_str (reg_email b), truthy_str (reg_password b)) of
        (Some un, Some em, Some pw) \<Rightarrow>
          (case findOne_email_or_username users em un of
             Some existingUser \<Rightarrow>
               \<lparr>out = \<lparr>status = 400,
                       body = Msg False ''User already exists with this email or username''\<rparr>,
                db = users, calls = [FindOneEmailOrUsername em un]\<rparr>
           | None \<Rightarrow>
               (let s = save e users (new_User e un em pw);
                    u = doc (out s);
                    p = \<lparr>userId = uid u, payload_email = email u\<rparr>
                in \<lparr>out = \<lparr>status = 201,
                           body = AuthOk ''User registered successfully''
                                    \<lparr>json_id = uid u, json_username = username u,
                                     json_email = email u\<rparr>
                                    (jwt_sign e p)\<rparr>,
                    db = db s,
                    calls = FindOneEmailOrUsername em un # calls s @ [JwtSign p]\<rparr>))
      | _ \<Rightarrow>
          \<lparr>out = \<lparr>status = 400, body = Msg False ''All fields are required''\<rparr>,
           db = users, calls = []\<rparr>)"

text \<open>\<open>app.post('/api/auth/login', ...)\<close>, with \<open>user.comparePassword\<close> inlined.\<close>

definition post_auth_login :: "env \<Rightarrow> user list \<Rightarrow> login_body \<Rightarrow> response run" where
  "post_auth_login e users b =
     (case (truthy_str (login_email b), truthy_str (login_password b)) of
        (Some em, Some pw) \<Rightarrow>
          (case findOne_email users em of
             None \<Rightarrow>
               \<lparr>out = \<lparr>status = 401, body = Msg False ''Invalid email or password''\<rparr>,
                db = users, calls = [FindOneEmail em]\<rparr>
           | Some u \<Rightarrow>
               if \<not> bcrypt_compare e pw (password u) then
                 \<lparr>out = \<lparr>status = 401, body = Msg False ''Invalid email or password''\<rparr>,
                  db = users,
                  calls = [FindOneEmail em, BcryptCompare pw (password u)]\<rparr>
               else
                 (let p = \<lparr>userId = uid u, payload_email = email u\<rparr>
                  in \<lparr>out = \<lparr>status = 200,
                             body = AuthOk ''Login successful''
                                      \<lparr>json_id = uid u, json_username = username u,
                                       json_email = email u\<rparr>
                                      (jwt_sign e p)\<rparr>,
                      db = users,
                      calls = [FindOneEmail em, BcryptCompare pw (password u), JwtSign p]\<rparr>))
      | _ \<Rightarrow>
          \<lparr>out = \<lparr>status = 400, body = Msg False ''Email and password are required''\<rparr>,
           db = users, calls = []\<rparr>)"

section \<open>Favorites\<close>

text \<open>
  The function mapped over \<open>user.favorites\<close>: one catalog call, the summary built
  from its answer and the entry's own \<open>addedAt\<close>, \<open>null\<close> when the call fails.
\<close>

definition summary :: "movie_data \<Rightarrow> favorite \<Rightarrow> favorite_movie" where
  "summary d fav =
     \<lparr>fm_id = data_id d, fm_title = data_title d, fm_overview = data_overview d,
      fm_poster_path = data_poster_path d, fm_release_date = data_release_date d,
      fm_vote_average = data_vote_average d, fm_addedAt = addedAt fav\<rparr>"

definition fetch_favorite :: "env \<Rightarrow> favorite \<Rightarrow> favorite_movie option" where
  "fetch_favorite e fav =
     (case tmdb_get e (movieId fav) of
        None \<Rightarrow> None
      | Some d \<Rightarrow> Some (summary d fav))"

text \<open>\<open>.filter(Boolean)\<close> on a list of objects and \<open>null\<close>s.\<close>

fun filter_Boolean :: "'a option list \<Rightarrow> 'a list" where
  "filter_Boolean [] = []"
| "filter_Boolean (None # xs) = filter_Boolean xs"
| "filter_Boolean (Some x # xs) = x # filter_Boolean xs"

text \<open>
  \<open>app.get('/api/users/favorites', authenticateToken, ...)\<close>, after the middleware
  has set \<open>req.user\<close>. \<open>populate('favorites')\<close> has nothing to resolve, the
  path holding no reference. \<open>Promise.all\<close> keeps the order of the mapped list. A user
  that is no longer found makes \<open>user.favorites\<close> throw, which the outer
  \<open>catch\<close> answers.
\<close>

definition get_users_favorites :: "env \<Rightarrow> user list \<Rightarrow> selected_user \<Rightarrow> response run" where
  "get_users_favorites e users req_user =
     (case findById users (sel_id req_user) of
        None \<Rightarrow>
          \<lparr>out = \<lparr>status = 500, body = Msg False ''Error fetching favorites''\<rparr>,
           db = users, calls = [FindById (sel_id req_user)]\<rparr>
      | Some u \<Rightarrow>
          (let favoriteMovies = map (fetch_favorite e) (favorites u)
           in \<lparr>out = \<lparr>status = 200, body = FavoritesOk (filter_Boolean favoriteMovies)\<rparr>,
               db = users,
               calls = FindById (sel_id req_user)
                       # map (\<lambda>fav. TmdbGet (movieId fav)) (favorites u)\<rparr>))"

text \<open>
  \<open>fav.movieId === movieId\<close>: a stored number is strictly equal to the body value
  only when that value is the same number.
\<close>

definition strict_eq_number :: "int \<Rightarrow> jsval \<Rightarrow> bool" where
  "strict_eq_number n v = (v = JNum n)"

text \<open>
  The cast of the pushed \<open>movieId\<close> to the schema's \<open>Number\<close>; a failed cast makes
  the save fail validation. The last two cases are not reached, the handler
  having answered on a falsy value.
\<close>

fun cast_movieId :: "env \<Rightarrow> jsval \<Rightarrow> int option" where
  "cast_movieId e (JNum n) = Some n"
| "cast_movieId e (JStr s) = cast_number e s"
| "cast_movieId e JNull = None"
| "cast_movieId e JUndefined = None"

text \<open>\<open>app.post('/api/users/favorites', authenticateToken, ...)\<close>, after the middleware.\<close>

definition post_users_favorites ::
    "env \<Rightarrow> user list \<Rightarrow> selected_user \<Rightarrow> jsval \<Rightarrow> response run" where
  "post_users_favorites e users req_user mv =
     (if falsy mv then
        \<lparr>out = \<lparr>status = 400, body = Msg False ''Movie ID is required''\<rparr>,
         db = users, calls = []\<rparr>
      else
        (case findById users (sel_id req_user) of
           None \<Rightarrow>
             \<lparr>out = \<lparr>status = 500, body = Msg False ''Error adding to favorites''\<rparr>,
              db = users, calls = [FindById (sel_id req_user)]\<rparr>
         | Some u \<Rightarrow>
             if list_ex (\<lambda>fav. strict_eq_number (movieId fav) mv) (favorites u) then
               \<lparr>out = \<lparr>status = 400, body = Msg False ''Movie already in favorites''\<rparr>,
                db = users, calls = [FindById (sel_id req_user)]\<rparr>
             else
               (case cast_movieId e mv of
                  None \<Rightarrow>
                    \<lparr>out = \<lparr>status = 500, body = Msg False ''Error adding to favorites''\<rparr>,
                     db = users, calls = [FindById (sel_id req_user)]\<rparr>
                | Some n \<Rightarrow>
                    (let d = (hydrate u)\<lparr>doc := u\<lparr>favorites :=
                               favorites u @ [\<lparr>movieId = n, addedAt = date_now e\<rparr>]\<rparr>\<rparr>;
                         s = save e users d
                     in \<lparr>out = \<lparr>status = 200, body = Msg True ''Movie added to favorites''\<rparr>,
                         db = db s,
                         calls = FindById (sel_id req_user) # calls s\<rparr>))))"

text \<open>The invariant of the data model: no movie occurs twice in one user's favorites.\<close>

definition favorites_unique :: "user \<Rightarrow> bool" where
  "favorites_unique u = distinct (map movieId (favorites u))"

section \<open>A scenario\<close>

text \<open>
  One registered user with three favorites, and libraries that answer in a fixed
  way: the catalog knows every movie but 202, the only valid token is the one
  signed for the user, and the texts "0" and "101" are cast to the numbers they
  spell.
\<close>

definition ana :: user where
  "ana = \<lparr>uid = ''u1'', username = ''ana'', email = ''a@x.com'',
          password = ''hash:secret1'',
          favorites = [\<lparr>movieId = 101, addedAt = 11\<rparr>, \<lparr>movieId = 202, addedAt = 12\<rparr>,
                       \<lparr>movieId = 303, addedAt = 13\<rparr>],
          watchlists = []\<rparr>"

definition detail :: "int \<Rightarrow> movie_data" where
  "detail i =
     (if i = 101 then
        \<lparr>data_id = JNum i, data_title = JStr ''title 101'', data_overview = JStr ''overview 101'',
         data_poster_path = JNull, data_release_date = JStr ''2020-01-01'',
         data_vote_average = JNum 7\<rparr>
      else
        \<lparr>data_id = JNum i, data_title = JStr ''title 303'', data_overview = JStr ''overview 303'',
         data_poster_path = JStr ''/p.jpg'', data_release_date = JStr ''2021-05-05'',
         data_vote_average = JNum 8\<rparr>)"

definition scenario_env :: env where
  "scenario_env =
     \<lparr>jwt_verify = (\<lambda>t. if t = ''tok:u1'' then Some \<lparr>userId = ''u1'', payload_email = ''a@x.com''\<rparr>
                         else None),
      jwt_sign = (\<lambda>p. ''tok:'' @ userId p),
      bcrypt_hash = (\<lambda>s. ''hash:'' @ s),
      bcrypt_compare = (\<lambda>c h. h = ''hash:'' @ c),
      tmdb_get = (\<lambda>i. if i = 202 then None else Some (detail i)),
      cast_number = (\<lambda>s. if s = ''0'' then Some 0 else if s = ''101'' then Some 101 else None),
      date_now = 1000,
      new_ObjectId = ''u2''\<rparr>"

section \<open>Splitting the header\<close>

lemma split_str_not_Nil: "split_str sep s \<noteq> []"
  by (induction s) (auto split: list.splits)

lemma split_str_no_sep: "sep \<notin> set s \<Longrightarrow> split_str sep s = [s]"
  by (induction s) auto

lemma split_str_first: "sep \<notin> set a \<Longrightarrow> split_str sep (a @ sep # r) = a # split_str sep r"
  by (induction a) auto

lemma header_token_no_space: "CHR '' '' \<notin> set h \<Longrightarrow> header_token (Some h) = None"
  by (simp add: header_token_def at_index_def split_str_no_sep)

lemma header_token_second:
  assumes "CHR '' '' \<notin> set a" and "CHR '' '' \<notin> set t"
  shows "header_token (Some (a @ CHR '' '' # t)) = Some t"
    and "header_token (Some (a @ CHR '' '' # t @ CHR '' '' # r)) = Some t"
  using assms by (simp_all add: header_token_def at_index_def split_str_first split_str_no_sep)

section \<open>The scenario's libraries\<close>

lemma scenario_env_sel:
  "jwt_sign scenario_env p = ''tok:'' @ userId p"
  "bcrypt_hash scenario_env s = ''hash:'' @ s"
  "bcrypt_compare scenario_env c h = (h = ''hash:'' @ c)"
  "date_now scenario_env = 1000"
  "new_ObjectId scenario_env = ''u2''"
  by (simp_all add: scenario_env_def)

section \<open>The middleware\<close>

lemma authenticateToken_db: "db (authenticateToken e users a) = users"
  by (simp add: authenticateToken_def split: option.splits)

lemma authenticateToken_calls:
  "c \<in> set (calls (authenticateToken e users a)) \<Longrightarrow> (\<exists>t. c = JwtVerify t) \<or> (\<exists>i. c = FindById i)"
  by (auto simp: authenticateToken_def split: option.splits if_splits)

text \<open>
  C2, as the code has it. The middleware answers 401 "Access token required",
  with no call to the verifier or to the collection, when the Authorization
  header is absent, has no space, or has nothing between its first space and the
  next space or its end. The word before the first space is not looked at: of a
  header of two words the second is given to the verifier, whatever the first.
\<close>

theorem authenticateToken_token_required:
  "(authorization = None
    \<or> (\<exists>h. authorization = Some h \<and> CHR '' '' \<notin> set h)
    \<or> (\<exists>a r. authorization = Some (a @ CHR '' '' # r) \<and> CHR '' '' \<notin> set a
              \<and> (r = [] \<or> (\<exists>r'. r = CHR '' '' # r')))
    \<longrightarrow> authenticateToken e users authorization =
          \<lparr>out = Respond \<lparr>status = 401, body = Msg False ''Access token required''\<rparr>,
           db = users, calls = []\<rparr>)
   \<and> (\<forall>a t. authorization = Some (a @ CHR '' '' # t) \<and> CHR '' '' \<notin> set a
              \<and> CHR '' '' \<notin> set t \<and> t \<noteq> []
        \<longrightarrow> (\<exists>cs. calls (authenticateToken e users authorization) = JwtVerify t # cs))"
proof -
  have required: "authenticateToken e users authorization =
          \<lparr>out = Respond \<lparr>status = 401, body = Msg False ''Access token required''\<rparr>,
           db = users, calls = []\<rparr>"
    if "authorization = None
        \<or> (\<exists>h. authorization = Some h \<and> CHR '' '' \<notin> set h)
        \<or> (\<exists>a r. authorization = Some (a @ CHR '' '' # r) \<and> CHR '' '' \<notin> set a
                  \<and> (r = [] \<or> (\<exists>r'. r = CHR '' '' # r')))"
  proof -
    have "header_token authorization = None \<or> header_token authorization = Some []"
      using that
      by (auto simp: header_token_def at_index_def split_str_no_sep split_str_first)
    then show ?thesis
      by (auto simp: authenticateToken_def)
  qed
  have verified: "\<exists>cs. calls (authenticateToken e users authorization) = JwtVerify t # cs"
    if "authorization = Some (a @ CHR '' '' # t)" "CHR '' '' \<notin> set a"
       "CHR '' '' \<notin> set t" "t \<noteq> []" for a t
  proof -
    have "header_token authorization = Some t"
      unfolding that(1) using that(2,3) by (rule header_token_second(1))
    then show ?thesis
      using that(4) by (simp add: authenticateToken_def split: option.splits)
  qed
  from required verified show ?thesis by blast
qed

theorem authenticateToken_token_required_witness:
  "authenticateToken scenario_env [ana] None =
     \<lparr>out = Respond \<lparr>status = 401, body = Msg False ''Access token required''\<rparr>,
      db = [ana], calls = []\<rparr>
   \<and> authenticateToken scenario_env [ana] (Some ''Bearer'') =
     \<lparr>out = Respond \<lparr>status = 401, body = Msg False ''Access token required''\<rparr>,
      db = [ana], calls = []\<rparr>
   \<and> (\<exists>cs. calls (authenticateToken scenario_env [ana] (Some ''Token abc''))
             = JwtVerify ''abc'' # cs)"
proof -
  have two_words: "Some ''Token abc'' = Some (''Token'' @ CHR '' '' # ''abc'')
      \<and> CHR '' '' \<notin> set ''Token'' \<and> CHR '' '' \<notin> set ''abc'' \<and> ''abc'' \<noteq> []"
    by simp
  from authenticateToken_token_required [of "Some ''Token abc''" scenario_env "[ana]"] two_words
  have "\<exists>cs. calls (authenticateToken scenario_env [ana] (Some ''Token abc''))
             = JwtVerify ''abc'' # cs"
    by blast
  then show ?thesis
    using authenticateToken_token_required [of None scenario_env "[ana]"]
          authenticateToken_token_required [of "Some ''Bearer''" scenario_env "[ana]"]
    by simp
qed

text \<open>
  C2 as stated fails: a header that is not of the form "Bearer <token>" but has
  a second word is not answered with "Access token required"; its second word
  goes to the verifier, and the request passes when that word is a valid token.
\<close>

theorem authenticateToken_other_scheme_counterexample:
  "out (authenticateToken scenario_env [ana] (Some ''Basic tok:u1''))
     \<noteq> Respond \<lparr>status = 401, body = Msg False ''Access token required''\<rparr>
   \<and> out (authenticateToken scenario_env [ana] (Some ''Basic tok:u1''))
     = Next (select_minus_password ana)
   \<and> calls (authenticateToken scenario_env [ana] (Some ''Basic tok:u1''))
     = [JwtVerify ''tok:u1'', FindById ''u1'']"
  by (simp add: authenticateToken_def header_token_def at_index_def scenario_env_def
        findById_def ana_def)

text \<open>
  C3. For a request with the header "Bearer <token>" (a non-empty token without
  spaces) the middleware answers 401 "Invalid token" exactly when the verifier
  rejects the token or no stored user has the verified identifier; otherwise it
  hands on the user found, projected without the password.
\<close>

theorem authenticateToken_invalid_token:
  assumes "tok \<noteq> []" and "CHR '' '' \<notin> set tok"
  shows "((out (authenticateToken e users (Some (''Bearer '' @ tok)))
             = Respond \<lparr>status = 401, body = Msg False ''Invalid token''\<rparr>)
          = (jwt_verify e tok = None
             \<or> (\<exists>d. jwt_verify e tok = Some d \<and> findById users (userId d) = None)))
         \<and> (\<forall>d u. jwt_verify e tok = Some d \<and> findById users (userId d) = Some u \<longrightarrow>
               out (authenticateToken e users (Some (''Bearer '' @ tok)))
                 = Next \<lparr>sel_id = uid u, sel_username = username u, sel_email = email u,
                         sel_favorites = favorites u, sel_watchlists = watchlists u\<rparr>)"
proof -
  have "header_token (Some (''Bearer'' @ CHR '' '' # tok)) = Some tok"
    using assms(2) by (intro header_token_second(1)) simp_all
  then have t: "header_token (Some (''Bearer '' @ tok)) = Some tok"
    by simp
  have rejected: "(out (authenticateToken e users (Some (''Bearer '' @ tok)))
            = Respond \<lparr>status = 401, body = Msg False ''Invalid token''\<rparr>)
         = (jwt_verify e tok = None
            \<or> (\<exists>d. jwt_verify e tok = Some d \<and> findById users (userId d) = None))"
    unfolding authenticateToken_def t using assms(1) by (auto split: option.splits)
  have accepted: "out (authenticateToken e users (Some (''Bearer '' @ tok)))
           = Next \<lparr>sel_id = uid u, sel_username = username u, sel_email = email u,
                   sel_favorites = favorites u, sel_watchlists = watchlists u\<rparr>"
    if "jwt_verify e tok = Some d" and "findById users (userId d) = Some u" for d u
    unfolding authenticateToken_def t using assms(1) that
    by (simp add: select_minus_password_def)
  from rejected accepted show ?thesis by blast
qed

theorem authenticateToken_invalid_token_witness:
  "''tok:u1'' \<noteq> [] \<and> CHR '' '' \<notin> set ''tok:u1''
   \<and> out (authenticateToken scenario_env [ana] (Some ''Bearer tok:u1''))
       = Next \<lparr>sel_id = ''u1'', sel_username = ''ana'', sel_email = ''a@x.com'',
               sel_favorites = favorites ana, sel_watchlists = []\<rparr>
   \<and> out (authenticateToken scenario_env [] (Some ''Bearer tok:u1''))
       = Respond \<lparr>status = 401, body = Msg False ''Invalid token''\<rparr>"
  using authenticateToken_invalid_token [of "''tok:u1''" scenario_env "[ana]"]
        authenticateToken_invalid_token [of "''tok:u1''" scenario_env "[]"]
  by (simp add: scenario_env_def findById_def ana_def)

text \<open>
  C9. The middleware leaves the collection as it found it, and every call it
  makes is a token verification or a read by identifier.
\<close>

theorem authenticateToken_reads_only:
  "db (authenticateToken e users authorization) = users
   \<and> list_all (\<lambda>c. (\<exists>t. c = JwtVerify t) \<or> (\<exists>i. c = FindById i))
        (calls (authenticateToken e users authorization))"
  using authenticateToken_calls [of _ e users authorization]
  by (auto simp: authenticateToken_db list_all_iff)

section \<open>Adding a favorite\<close>

text \<open>
  C10, as the code has it. When the body's \<open>movieId\<close> is absent, \<open>null\<close>, the
  empty string or the number 0, the add-favorite handler answers 400 "Movie ID
  is required", makes no call and leaves the collection as it is; so a request
  that sends such a value, the number 0 among them, adds no favorite to any
  user.
\<close>

theorem post_users_favorites_falsy:
  assumes "mv = JUndefined \<or> mv = JNull \<or> mv = JStr [] \<or> mv = JNum 0"
  shows "post_users_favorites e users req_user mv =
           \<lparr>out = \<lparr>status = 400, body = Msg False ''Movie ID is required''\<rparr>,
            db = users, calls = []\<rparr>
         \<and> map favorites (db (post_users_favorites e users req_user mv)) = map favorites users"
  using assms by (auto simp: post_users_favorites_def)

theorem post_users_favorites_falsy_witness:
  "post_users_favorites scenario_env [ana] (select_minus_password ana) (JNum 0) =
     \<lparr>out = \<lparr>status = 400, body = Msg False ''Movie ID is required''\<rparr>,
      db = [ana], calls = []\<rparr>
   \<and> map favorites (db (post_users_favorites scenario_env [ana] (select_minus_password ana)
                           (JNum 0)))
       = [favorites ana]"
  using post_users_favorites_falsy [of "JNum 0" scenario_env "[ana]" "select_minus_password ana"]
  by simp

text \<open>
  C10 as stated fails in its conclusion that the movie 0 can never be added:
  the text "0" is not falsy, is strictly equal to no stored number, and is cast
  to the number 0 when it is pushed, so the request is answered 200 and the
  user's list ends with the movie 0.
\<close>

theorem post_users_favorites_text_zero_counterexample:
  "\<not> falsy (JStr ''0'')
   \<and> out (post_users_favorites scenario_env [ana] (select_minus_password ana) (JStr ''0''))
       = \<lparr>status = 200, body = Msg True ''Movie added to favorites''\<rparr>
   \<and> map (\<lambda>x. map movieId (favorites x))
        (db (post_users_favorites scenario_env [ana] (select_minus_password ana) (JStr ''0'')))
       = [[101, 202, 303, 0]]"
  by (simp add: post_users_favorites_def strict_eq_number_def findById_def
        select_minus_password_def save_def pre_save_def hydrate_def Let_def
        ana_def scenario_env_def)

section \<open>Listing the favorites\<close>

lemma filter_Boolean_map:
  "filter_Boolean (map f xs) = map (\<lambda>x. the (f x)) (filter (\<lambda>x. f x \<noteq> None) xs)"
  by (induction xs) auto

lemma fetch_favorite_None: "(fetch_favorite e fav \<noteq> None) = (tmdb_get e (movieId fav) \<noteq> None)"
  by (simp add: fetch_favorite_def split: option.splits)

lemma fetch_favorite_the:
  "tmdb_get e (movieId fav) \<noteq> None \<Longrightarrow>
   the (fetch_favorite e fav) = summary (the (tmdb_get e (movieId fav))) fav"
  by (auto simp: fetch_favorite_def)

lemma resolved_favorites:
  "filter_Boolean (map (fetch_favorite e) favs) =
     map (\<lambda>fav. summary (the (tmdb_get e (movieId fav))) fav)
         (filter (\<lambda>fav. tmdb_get e (movieId fav) \<noteq> None) favs)"
  unfolding filter_Boolean_map fetch_favorite_None
  by (rule map_cong) (simp_all add: fetch_favorite_the)

lemma summary_addedAt: "fm_addedAt (summary d fav) = addedAt fav"
  by (simp add: summary_def)

text \<open>
  C1. For a user that is found, the favorites handler answers 200 with, in the
  order of the favorites list, one summary for every entry whose catalog lookup
  succeeded: the identifier, title, overview, poster path, release date and
  rating of the catalog's answer for that entry, and the entry's own
  \<open>addedAt\<close>. The entries whose lookup failed are left out and nothing else
  changes the answer. The timestamps of the answer are a subsequence of those
  of the list, and the collection is untouched.
\<close>

theorem get_users_favorites_resolved:
  assumes "findById users (sel_id req_user) = Some u"
  shows "\<exists>ms. out (get_users_favorites e users req_user)
                = \<lparr>status = 200, body = FavoritesOk ms\<rparr>
              \<and> ms = map (\<lambda>fav.
                           \<lparr>fm_id = data_id (the (tmdb_get e (movieId fav))),
                            fm_title = data_title (the (tmdb_get e (movieId fav))),
                            fm_overview = data_overview (the (tmdb_get e (movieId fav))),
                            fm_poster_path = data_poster_path (the (tmdb_get e (movieId fav))),
                            fm_release_date = data_release_date (the (tmdb_get e (movieId fav))),
                            fm_vote_average = data_vote_average (the (tmdb_get e (movieId fav))),
                            fm_addedAt = addedAt fav\<rparr>)
                         (filter (\<lambda>fav. tmdb_get e (movieId fav) \<noteq> None) (favorites u))
              \<and> map fm_addedAt ms
                  = map addedAt (filter (\<lambda>fav. tmdb_get e (movieId fav) \<noteq> None) (favorites u))
              \<and> subseq (map fm_addedAt ms) (map addedAt (favorites u))
              \<and> db (get_users_favorites e users req_user) = users"
proof -
  let ?ok = "\<lambda>fav. tmdb_get e (movieId fav) \<noteq> None"
  let ?ms = "map (\<lambda>fav.
                    \<lparr>fm_id = data_id (the (tmdb_get e (movieId fav))),
                     fm_title = data_title (the (tmdb_get e (movieId fav))),
                     fm_overview = data_overview (the (tmdb_get e (movieId fav))),
                     fm_poster_path = data_poster_path (the (tmdb_get e (movieId fav))),
                     fm_release_date = data_release_date (the (tmdb_get e (movieId fav))),
                     fm_vote_average = data_vote_average (the (tmdb_get e (movieId fav))),
                     fm_addedAt = addedAt fav\<rparr>)
                 (filter ?ok (favorites u))"
  have answer: "out (get_users_favorites e users req_user)
                  = \<lparr>status = 200, body = FavoritesOk ?ms\<rparr>"
    using assms by (simp add: get_users_favorites_def resolved_favorites summary_def)
  have stamps: "map fm_addedAt ?ms = map addedAt (filter ?ok (favorites u))"
    by (simp add: comp_def)
  have "subseq (filter ?ok (favorites u)) (favorites u)"
    by (rule subseq_filter_left)
  then have "subseq (map addedAt (filter ?ok (favorites u))) (map addedAt (favorites u))"
    by (rule subseq_map)
  then have sub: "subseq (map fm_addedAt ?ms) (map addedAt (favorites u))"
    unfolding stamps .
  have same: "db (get_users_favorites e users req_user) = users"
    using assms by (simp add: get_users_favorites_def)
  from answer stamps sub same show ?thesis by blast
qed

theorem get_users_favorites_resolved_witness:
  "findById [ana] (sel_id (select_minus_password ana)) = Some ana
   \<and> tmdb_get scenario_env 101 = Some (detail 101)
   \<and> tmdb_get scenario_env 202 = None
   \<and> tmdb_get scenario_env 303 = Some (detail 303)
   \<and> out (get_users_favorites scenario_env [ana] (select_minus_password ana))
       = \<lparr>status = 200,
          body = FavoritesOk
                   [\<lparr>fm_id = JNum 101, fm_title = JStr ''title 101'',
                     fm_overview = JStr ''overview 101'', fm_poster_path = JNull,
                     fm_release_date = JStr ''2020-01-01'', fm_vote_average = JNum 7,
                     fm_addedAt = 11\<rparr>,
                    \<lparr>fm_id = JNum 303, fm_title = JStr ''title 303'',
                     fm_overview = JStr ''overview 303'', fm_poster_path = JStr ''/p.jpg'',
                     fm_release_date = JStr ''2021-05-05'', fm_vote_average = JNum 8,
                     fm_addedAt = 13\<rparr>]\<rparr>"
proof -
  have found: "findById [ana] (sel_id (select_minus_password ana)) = Some ana"
    by (simp add: findById_def select_minus_password_def)
  have catalog: "tmdb_get scenario_env 101 = Some (detail 101)"
    "tmdb_get scenario_env 202 = None" "tmdb_get scenario_env 303 = Some (detail 303)"
    by (simp_all add: scenario_env_def)
  from get_users_favorites_resolved [OF found, of scenario_env]
  have "out (get_users_favorites scenario_env [ana] (select_minus_password ana))
       = \<lparr>status = 200,
          body = FavoritesOk
                   [\<lparr>fm_id = JNum 101, fm_title = JStr ''title 101'',
                     fm_overview = JStr ''overview 101'', fm_poster_path = JNull,
                     fm_release_date = JStr ''2020-01-01'', fm_vote_average = JNum 7,
                     fm_addedAt = 11\<rparr>,
                    \<lparr>fm_id = JNum 303, fm_title = JStr ''title 303'',
                     fm_overview = JStr ''overview 303'', fm_poster_path = JStr ''/p.jpg'',
                     fm_release_date = JStr ''2021-05-05'', fm_vote_average = JNum 8,
                     fm_addedAt = 13\<rparr>]\<rparr>"
    by (simp add: catalog ana_def detail_def)
  with found catalog show ?thesis by simp
qed

section \<open>Saving a document\<close>

lemma findById_uid: "findById users i = Some u \<Longrightarrow> uid u = i \<and> u \<in> set users"
  by (auto simp: findById_def find_Some_iff)

lemma findById_updateOne:
  "findById users (uid u') = Some u \<Longrightarrow> findById (updateOne users u') (uid u') = Some u'"
  by (induction users) (auto simp: findById_def)

lemma set_updateOne: "set (updateOne users u') \<subseteq> insert u' (set users)"
  by (induction users) auto

lemma updateOne_passwords:
  "findById users (uid u') = Some u \<Longrightarrow> password u' = password u \<Longrightarrow>
   map password (updateOne users u') = map password users"
  by (induction users) (auto simp: findById_def)

lemma save_loaded:
  "save e users ((hydrate u)\<lparr>doc := u'\<rparr>) =
     \<lparr>out = \<lparr>doc = u', isNew = False, password_modified = False\<rparr>,
      db = updateOne users u', calls = [UpdateOne (uid u')]\<rparr>"
  by (simp add: save_def pre_save_def hydrate_def)

lemma save_new_User:
  "save e users (new_User e un em pw) =
     \<lparr>out = \<lparr>doc = \<lparr>uid = new_ObjectId e, username = un, email = em,
                     password = bcrypt_hash e pw, favorites = [], watchlists = []\<rparr>,
              isNew = False, password_modified = False\<rparr>,
      db = users @ [\<lparr>uid = new_ObjectId e, username = un, email = em,
                     password = bcrypt_hash e pw, favorites = [], watchlists = []\<rparr>],
      calls = [BcryptHash pw, InsertOne (new_ObjectId e)]\<rparr>"
  by (simp add: save_def pre_save_def new_User_def)

text \<open>
  C8. On a save the hashing call is made exactly when the password path is
  modified. The record written is the document after the hook: its password is
  the hash of the document's password when the path was modified and the
  document's password as it was otherwise. For a document that was loaded and
  whose password was not touched, the passwords stored in the collection are the
  same after the save as before.
\<close>

theorem save_hashes_iff_modified:
  "(list_ex (\<lambda>c. \<exists>s. c = BcryptHash s) (calls (save e users d)) = password_modified d)
   \<and> password (doc (out (save e users d)))
       = (if password_modified d then bcrypt_hash e (password (doc d)) else password (doc d))
   \<and> db (save e users d)
       = (if isNew d then users @ [doc (out (save e users d))]
          else updateOne users (doc (out (save e users d))))
   \<and> (\<not> isNew d \<and> \<not> password_modified d \<and> findById users (uid (doc d)) = Some u
        \<and> password (doc d) = password u
      \<longrightarrow> map password (db (save e users d)) = map password users)"
proof -
  have hook: "list_ex (\<lambda>c. \<exists>s. c = BcryptHash s) (calls (save e users d)) = password_modified d"
    by (simp add: save_def pre_save_def)
  have stored: "password (doc (out (save e users d)))
       = (if password_modified d then bcrypt_hash e (password (doc d)) else password (doc d))"
    by (simp add: save_def pre_save_def)
  have written: "db (save e users d)
       = (if isNew d then users @ [doc (out (save e users d))]
          else updateOne users (doc (out (save e users d))))"
    by (simp add: save_def pre_save_def)
  have kept: "map password (db (save e users d)) = map password users"
    if "\<not> isNew d" "\<not> password_modified d" "findById users (uid (doc d)) = Some u"
       "password (doc d) = password u"
  proof -
    from that(1,2) have "db (save e users d) = updateOne users (doc d)"
      by (simp add: save_def pre_save_def)
    with that(3,4) show ?thesis
      by (simp add: updateOne_passwords)
  qed
  from hook stored written kept show ?thesis by blast
qed

theorem save_hashes_iff_modified_witness:
  "password (doc (out (save scenario_env [] (new_User scenario_env ''ana'' ''a@x.com'' ''secret1''))))
     = ''hash:secret1''
   \<and> list_ex (\<lambda>c. \<exists>s. c = BcryptHash s)
        (calls (save scenario_env [] (new_User scenario_env ''ana'' ''a@x.com'' ''secret1'')))
   \<and> \<not> list_ex (\<lambda>c. \<exists>s. c = BcryptHash s) (calls (save scenario_env [ana] (hydrate ana)))
   \<and> map password (db (save scenario_env [ana] (hydrate ana))) = [''hash:secret1'']"
  using save_hashes_iff_modified
          [of scenario_env "[]" "new_User scenario_env ''ana'' ''a@x.com'' ''secret1''" ana]
        save_hashes_iff_modified [of scenario_env "[ana]" "hydrate ana" ana]
  by (simp add: new_User_def hydrate_def scenario_env_def findById_def ana_def)

section \<open>No movie twice\<close>

lemma entries_of_distinct:
  "distinct (map f xs) \<Longrightarrow>
   length (filter (\<lambda>x. f x = m) xs) = (if m \<in> f ` set xs then 1 else 0)"
  by (induction xs) (auto simp: image_iff)

lemma strict_eq_number_JNum: "strict_eq_number n (JNum m) = (n = m)"
  by (auto simp: strict_eq_number_def)

lemma post_users_favorites_second:
  assumes "findById users (sel_id req_user) = Some u"
    and "list_ex (\<lambda>fav. movieId fav = m) (favorites u)" and "m \<noteq> 0"
  shows "post_users_favorites e users req_user (JNum m) =
           \<lparr>out = \<lparr>status = 400, body = Msg False ''Movie already in favorites''\<rparr>,
            db = users, calls = [FindById (sel_id req_user)]\<rparr>"
  using assms by (simp add: post_users_favorites_def strict_eq_number_JNum)

lemma post_users_favorites_first:
  assumes "findById users (sel_id req_user) = Some u"
    and "\<not> list_ex (\<lambda>fav. movieId fav = m) (favorites u)" and "m \<noteq> 0"
  shows "post_users_favorites e users req_user (JNum m) =
           \<lparr>out = \<lparr>status = 200, body = Msg True ''Movie added to favorites''\<rparr>,
            db = updateOne users
                   (u\<lparr>favorites := favorites u @ [\<lparr>movieId = m, addedAt = date_now e\<rparr>]\<rparr>),
            calls = [FindById (sel_id req_user), UpdateOne (sel_id req_user)]\<rparr>"
  using assms findById_uid [OF assms(1)]
  by (simp add: post_users_favorites_def strict_eq_number_JNum save_loaded)

text \<open>
  C6, as the code has it. For a stored user and a movie identifier other than
  0, starting from a collection where no user has a movie twice: after two
  add-favorite requests for the same movie in a row, the second is answered 400
  "Movie already in favorites" and changes nothing, the user's list has exactly
  one entry for the movie, and still no user has a movie twice.
\<close>

theorem post_users_favorites_twice:
  assumes "findById users (sel_id req_user) = Some u"
    and "m \<noteq> 0"
    and "\<forall>x \<in> set users. favorites_unique x"
  shows "let r1 = post_users_favorites e1 users req_user (JNum m);
             r2 = post_users_favorites e2 (db r1) req_user (JNum m)
         in out r2 = \<lparr>status = 400, body = Msg False ''Movie already in favorites''\<rparr>
            \<and> db r2 = db r1
            \<and> (\<exists>u'. findById (db r2) (sel_id req_user) = Some u'
                     \<and> length (filter (\<lambda>fav. movieId fav = m) (favorites u')) = 1)
            \<and> (\<forall>x \<in> set (db r2). favorites_unique x)"
proof (cases "list_ex (\<lambda>fav. movieId fav = m) (favorites u)")
  case True
  from assms(1) have "u \<in> set users"
    by (simp add: findById_uid)
  with assms(3) have "distinct (map movieId (favorites u))"
    by (simp add: favorites_unique_def)
  then have one: "length (filter (\<lambda>fav. movieId fav = m) (favorites u)) = 1"
    using True by (auto simp: entries_of_distinct list_ex_iff image_iff)
  have first: "db (post_users_favorites e1 users req_user (JNum m)) = users"
    by (simp add: post_users_favorites_second [OF assms(1) True assms(2)])
  show ?thesis
    using assms(1,3) one
    by (simp add: Let_def first post_users_favorites_second [OF assms(1) True assms(2)])
next
  case False
  let ?u' = "u\<lparr>favorites := favorites u @ [\<lparr>movieId = m, addedAt = date_now e1\<rparr>]\<rparr>"
  let ?users' = "updateOne users ?u'"
  from assms(1) have u: "uid u = sel_id req_user" "u \<in> set users"
    by (simp_all add: findById_uid)
  with assms(3) have dist: "distinct (map movieId (favorites u))"
    by (simp add: favorites_unique_def)
  have first: "db (post_users_favorites e1 users req_user (JNum m)) = ?users'"
    by (simp add: post_users_favorites_first [OF assms(1) False assms(2)])
  have "findById users (uid ?u') = Some u"
    using assms(1) u(1) by simp
  then have "findById ?users' (uid ?u') = Some ?u'"
    by (rule findById_updateOne)
  then have found: "findById ?users' (sel_id req_user) = Some ?u'"
    using u(1) by simp
  have has: "list_ex (\<lambda>fav. movieId fav = m) (favorites ?u')"
    by (simp add: list_ex_iff)
  have second: "post_users_favorites e2 ?users' req_user (JNum m) =
           \<lparr>out = \<lparr>status = 400, body = Msg False ''Movie already in favorites''\<rparr>,
            db = ?users', calls = [FindById (sel_id req_user)]\<rparr>"
    by (rule post_users_favorites_second [OF found has assms(2)])
  have unique': "favorites_unique ?u'"
    using dist False by (auto simp: favorites_unique_def list_ex_iff)
  then have one: "length (filter (\<lambda>fav. movieId fav = m) (favorites ?u')) = 1"
    unfolding favorites_unique_def
    by (subst entries_of_distinct) (simp_all add: image_iff)
  have all: "\<forall>x \<in> set ?users'. favorites_unique x"
    using set_updateOne [of users ?u'] assms(3) unique' by auto
  show ?thesis
    unfolding Let_def first second using found one all by simp
qed

theorem post_users_favorites_twice_witness:
  "findById [ana] (sel_id (select_minus_password ana)) = Some ana
   \<and> (404 :: int) \<noteq> 0
   \<and> favorites_unique ana
   \<and> (let r1 = post_users_favorites scenario_env [ana] (select_minus_password ana) (JNum 404);
          r2 = post_users_favorites scenario_env (db r1) (select_minus_password ana) (JNum 404)
      in out r2 = \<lparr>status = 400, body = Msg False ''Movie already in favorites''\<rparr>
         \<and> db r2 = db r1
         \<and> (\<exists>u'. findById (db r2) (sel_id (select_minus_password ana)) = Some u'
                  \<and> length (filter (\<lambda>fav. movieId fav = 404) (favorites u')) = 1)
         \<and> list_all favorites_unique (db r2))"
proof -
  have found: "findById [ana] (sel_id (select_minus_password ana)) = Some ana"
    by (simp add: findById_def select_minus_password_def)
  have nonzero: "(404 :: int) \<noteq> 0"
    by simp
  have unique: "favorites_unique ana"
    by (simp add: favorites_unique_def ana_def)
  then have inv: "\<forall>x \<in> set [ana]. favorites_unique x"
    by simp
  have "let r1 = post_users_favorites scenario_env [ana] (select_minus_password ana) (JNum 404);
            r2 = post_users_favorites scenario_env (db r1) (select_minus_password ana) (JNum 404)
        in out r2 = \<lparr>status = 400, body = Msg False ''Movie already in favorites''\<rparr>
           \<and> db r2 = db r1
           \<and> (\<exists>u'. findById (db r2) (sel_id (select_minus_password ana)) = Some u'
                    \<and> length (filter (\<lambda>fav. movieId fav = 404) (favorites u')) = 1)
           \<and> list_all favorites_unique (db r2)"
    using post_users_favorites_twice [OF found nonzero inv, of scenario_env scenario_env]
    unfolding Let_def list_all_iff .
  with found nonzero unique show ?thesis
    by (intro conjI)
qed

text \<open>
  C6 as stated fails at the movie identifier 0: both requests are answered
  "Movie ID is required", and the list has no entry for 0.
\<close>

theorem post_users_favorites_zero_counterexample:
  "(let r1 = post_users_favorites scenario_env [ana] (select_minus_password ana) (JNum 0);
        r2 = post_users_favorites scenario_env (db r1) (select_minus_password ana) (JNum 0)
    in out r2 = \<lparr>status = 400, body = Msg False ''Movie ID is required''\<rparr>
       \<and> out r2 \<noteq> \<lparr>status = 400, body = Msg False ''Movie already in favorites''\<rparr>
       \<and> db r2 = [ana]
       \<and> length (filter (\<lambda>fav. movieId fav = 0) (favorites ana)) = 0)"
  by (simp add: post_users_favorites_def Let_def ana_def)

section \<open>Registration\<close>

lemma findOne_email_or_username_None:
  "(findOne_email_or_username users em un = None)
     = (\<not> (\<exists>x \<in> set users. email x = em \<or> username x = un))"
  by (auto simp: findOne_email_or_username_def find_None_iff)

text \<open>
  C4, as the code has it. For a request whose username, email and password are
  all present and non-empty: when a stored user has the same email or the same
  username, which one lookup decides, the answer is 400 "User already exists
  with this email or username" and nothing is written; otherwise a user with the
  hashed password and empty lists is added to the collection and the answer is
  201 with a token and the user's identifier, username and email only. Every
  request with an absent or empty username, email or password is answered 400
  "All fields are required", with no call and nothing written.
\<close>

theorem post_auth_register_complete_body:
  "(un \<noteq> [] \<and> em \<noteq> [] \<and> pw \<noteq> [] \<longrightarrow>
      ((\<exists>x \<in> set users. email x = em \<or> username x = un) \<longrightarrow>
         post_auth_register e users
             \<lparr>reg_username = Some un, reg_email = Some em, reg_password = Some pw\<rparr>
           = \<lparr>out = \<lparr>status = 400,
                     body = Msg False ''User already exists with this email or username''\<rparr>,
              db = users, calls = [FindOneEmailOrUsername em un]\<rparr>)
      \<and> (\<not> (\<exists>x \<in> set users. email x = em \<or> username x = un) \<longrightarrow>
         post_auth_register e users
             \<lparr>reg_username = Some un, reg_email = Some em, reg_password = Some pw\<rparr>
           = \<lparr>out = \<lparr>status = 201,
                     body = AuthOk ''User registered successfully''
                              \<lparr>json_id = new_ObjectId e, json_username = un, json_email = em\<rparr>
                              (jwt_sign e \<lparr>userId = new_ObjectId e, payload_email = em\<rparr>)\<rparr>,
              db = users @ [\<lparr>uid = new_ObjectId e, username = un, email = em,
                             password = bcrypt_hash e pw, favorites = [], watchlists = []\<rparr>],
              calls = [FindOneEmailOrUsername em un, BcryptHash pw, InsertOne (new_ObjectId e),
                       JwtSign \<lparr>userId = new_ObjectId e, payload_email = em\<rparr>]\<rparr>))
   \<and> (reg_username b = None \<or> reg_username b = Some []
      \<or> reg_email b = None \<or> reg_email b = Some []
      \<or> reg_password b = None \<or> reg_password b = Some []
      \<longrightarrow> post_auth_register e users b
            = \<lparr>out = \<lparr>status = 400, body = Msg False ''All fields are required''\<rparr>,
               db = users, calls = []\<rparr>)"
proof -
  let ?body = "\<lparr>reg_username = Some un, reg_email = Some em, reg_password = Some pw\<rparr>"
  have complete: "((\<exists>x \<in> set users. email x = em \<or> username x = un) \<longrightarrow>
         post_auth_register e users ?body
           = \<lparr>out = \<lparr>status = 400,
                     body = Msg False ''User already exists with this email or username''\<rparr>,
              db = users, calls = [FindOneEmailOrUsername em un]\<rparr>)
      \<and> (\<not> (\<exists>x \<in> set users. email x = em \<or> username x = un) \<longrightarrow>
         post_auth_register e users ?body
           = \<lparr>out = \<lparr>status = 201,
                     body = AuthOk ''User registered successfully''
                              \<lparr>json_id = new_ObjectId e, json_username = un, json_email = em\<rparr>
                              (jwt_sign e \<lparr>userId = new_ObjectId e, payload_email = em\<rparr>)\<rparr>,
              db = users @ [\<lparr>uid = new_ObjectId e, username = un, email = em,
                             password = bcrypt_hash e pw, favorites = [], watchlists = []\<rparr>],
              calls = [FindOneEmailOrUsername em un, BcryptHash pw, InsertOne (new_ObjectId e),
                       JwtSign \<lparr>userId = new_ObjectId e, payload_email = em\<rparr>]\<rparr>)"
    if fields: "un \<noteq> []" "em \<noteq> []" "pw \<noteq> []"
  proof (cases "findOne_email_or_username users em un")
    case None
    then have "\<not> (\<exists>x \<in> set users. email x = em \<or> username x = un)"
      by (simp add: findOne_email_or_username_None)
    then show ?thesis
      using fields None
      by (simp add: post_auth_register_def truthy_str_def save_new_User Let_def)
  next
    case (Some existingUser)
    then have "\<exists>x \<in> set users. email x = em \<or> username x = un"
      using findOne_email_or_username_None [of users em un] by simp
    then show ?thesis
      using fields Some
      by (simp add: post_auth_register_def truthy_str_def)
  qed
  have missing: "post_auth_register e users b
            = \<lparr>out = \<lparr>status = 400, body = Msg False ''All fields are required''\<rparr>,
               db = users, calls = []\<rparr>"
    if "reg_username b = None \<or> reg_username b = Some []
        \<or> reg_email b = None \<or> reg_email b = Some []
        \<or> reg_password b = None \<or> reg_password b = Some []"
    using that
    by (auto simp: post_auth_register_def truthy_str_def split: option.splits)
  from complete missing show ?thesis by blast
qed

theorem post_auth_register_complete_body_witness:
  "post_auth_register scenario_env []
       \<lparr>reg_username = Some ''ana'', reg_email = Some ''a@x.com'', reg_password = Some ''secret1''\<rparr>
     = \<lparr>out = \<lparr>status = 201,
               body = AuthOk ''User registered successfully''
                        \<lparr>json_id = ''u2'', json_username = ''ana'', json_email = ''a@x.com''\<rparr>
                        ''tok:u2''\<rparr>,
        db = [\<lparr>uid = ''u2'', username = ''ana'', email = ''a@x.com'',
               password = ''hash:secret1'', favorites = [], watchlists = []\<rparr>],
        calls = [FindOneEmailOrUsername ''a@x.com'' ''ana'', BcryptHash ''secret1'',
                 InsertOne ''u2'', JwtSign \<lparr>userId = ''u2'', payload_email = ''a@x.com''\<rparr>]\<rparr>
   \<and> post_auth_register scenario_env [ana]
       \<lparr>reg_username = Some ''bob'', reg_email = Some ''a@x.com'', reg_password = Some ''pw''\<rparr>
     = \<lparr>out = \<lparr>status = 400,
               body = Msg False ''User already exists with this email or username''\<rparr>,
        db = [ana], calls = [FindOneEmailOrUsername ''a@x.com'' ''bob'']\<rparr>
   \<and> post_auth_register scenario_env [ana]
       \<lparr>reg_username = Some ''bob'', reg_email = None, reg_password = Some ''pw''\<rparr>
     = \<lparr>out = \<lparr>status = 400, body = Msg False ''All fields are required''\<rparr>,
        db = [ana], calls = []\<rparr>"
proof -
  have taken: "\<exists>x \<in> set [ana]. email x = ''a@x.com'' \<or> username x = ''bob''"
    by (simp add: ana_def)
  have free: "\<not> (\<exists>x \<in> set ([] :: user list). email x = ''a@x.com'' \<or> username x = ''ana'')"
    by simp
  have registered: "post_auth_register scenario_env []
       \<lparr>reg_username = Some ''ana'', reg_email = Some ''a@x.com'', reg_password = Some ''secret1''\<rparr>
     = \<lparr>out = \<lparr>status = 201,
               body = AuthOk ''User registered successfully''
                        \<lparr>json_id = ''u2'', json_username = ''ana'', json_email = ''a@x.com''\<rparr>
                        ''tok:u2''\<rparr>,
        db = [\<lparr>uid = ''u2'', username = ''ana'', email = ''a@x.com'',
               password = ''hash:secret1'', favorites = [], watchlists = []\<rparr>],
        calls = [FindOneEmailOrUsername ''a@x.com'' ''ana'', BcryptHash ''secret1'',
                 InsertOne ''u2'', JwtSign \<lparr>userId = ''u2'', payload_email = ''a@x.com''\<rparr>]\<rparr>"
    using post_auth_register_complete_body
            [of "''ana''" "''a@x.com''" "''secret1''" "[]" scenario_env] free
    by (simp add: scenario_env_sel)
  have conflict: "post_auth_register scenario_env [ana]
       \<lparr>reg_username = Some ''bob'', reg_email = Some ''a@x.com'', reg_password = Some ''pw''\<rparr>
     = \<lparr>out = \<lparr>status = 400,
               body = Msg False ''User already exists with this email or username''\<rparr>,
        db = [ana], calls = [FindOneEmailOrUsername ''a@x.com'' ''bob'']\<rparr>"
    using post_auth_register_complete_body
            [of "''bob''" "''a@x.com''" "''pw''" "[ana]" scenario_env] taken
    by auto
  have missing: "post_auth_register scenario_env [ana]
       \<lparr>reg_username = Some ''bob'', reg_email = None, reg_password = Some ''pw''\<rparr>
     = \<lparr>out = \<lparr>status = 400, body = Msg False ''All fields are required''\<rparr>,
        db = [ana], calls = []\<rparr>"
    using post_auth_register_complete_body
            [of _ _ _ "[ana]" scenario_env
                "\<lparr>reg_username = Some ''bob'', reg_email = None, reg_password = Some ''pw''\<rparr>"]
    by simp
  from registered conflict missing show ?thesis
    by (intro conjI)
qed

text \<open>
  C4 as stated fails when a field of the body is empty or absent: the answer is
  "All fields are required" although a stored user has the same username, and
  a request that conflicts with no stored user is not answered 201.
\<close>

theorem post_auth_register_empty_field_counterexample:
  "username ana = ''ana''
   \<and> post_auth_register scenario_env [ana]
       \<lparr>reg_username = Some ''ana'', reg_email = Some ''b@x.com'', reg_password = Some []\<rparr>
     = \<lparr>out = \<lparr>status = 400, body = Msg False ''All fields are required''\<rparr>,
        db = [ana], calls = []\<rparr>
   \<and> post_auth_register scenario_env []
       \<lparr>reg_username = Some ''bob'', reg_email = Some ''b@x.com'', reg_password = None\<rparr>
     = \<lparr>out = \<lparr>status = 400, body = Msg False ''All fields are required''\<rparr>,
        db = [], calls = []\<rparr>"
  by (simp add: post_auth_register_def truthy_str_def ana_def)

section \<open>Login\<close>

text \<open>
  C5, as the code has it. For two failing logins with non-empty email and
  password, one with an email no stored user has, one with a stored user's email
  and a password that does not verify: both are answered 401 "Invalid email or
  password", the same answer. The first run makes the lookup only; the second
  makes the lookup and one password comparison.
\<close>

theorem post_auth_login_failures:
  assumes "em1 \<noteq> []" and "pw1 \<noteq> []" and "em2 \<noteq> []" and "pw2 \<noteq> []"
    and "findOne_email users em1 = None"
    and "findOne_email users em2 = Some u"
    and "\<not> bcrypt_compare e pw2 (password u)"
  shows "out (post_auth_login e users \<lparr>login_email = Some em1, login_password = Some pw1\<rparr>)
           = \<lparr>status = 401, body = Msg False ''Invalid email or password''\<rparr>
         \<and> out (post_auth_login e users \<lparr>login_email = Some em2, login_password = Some pw2\<rparr>)
           = out (post_auth_login e users \<lparr>login_email = Some em1, login_password = Some pw1\<rparr>)
         \<and> calls (post_auth_login e users \<lparr>login_email = Some em1, login_password = Some pw1\<rparr>)
           = [FindOneEmail em1]
         \<and> calls (post_auth_login e users \<lparr>login_email = Some em2, login_password = Some pw2\<rparr>)
           = [FindOneEmail em2, BcryptCompare pw2 (password u)]"
  using assms by (simp add: post_auth_login_def truthy_str_def)

theorem post_auth_login_failures_witness:
  "findOne_email [ana] ''x@x.com'' = None
   \<and> findOne_email [ana] ''a@x.com'' = Some ana
   \<and> \<not> bcrypt_compare scenario_env ''wrong'' (password ana)
   \<and> out (post_auth_login scenario_env [ana]
             \<lparr>login_email = Some ''x@x.com'', login_password = Some ''secret1''\<rparr>)
       = \<lparr>status = 401, body = Msg False ''Invalid email or password''\<rparr>
   \<and> out (post_auth_login scenario_env [ana]
             \<lparr>login_email = Some ''a@x.com'', login_password = Some ''wrong''\<rparr>)
       = \<lparr>status = 401, body = Msg False ''Invalid email or password''\<rparr>"
proof -
  have unknown: "findOne_email [ana] ''x@x.com'' = None"
    by (simp add: findOne_email_def ana_def)
  have known: "findOne_email [ana] ''a@x.com'' = Some ana"
    by (simp add: findOne_email_def ana_def)
  have wrong: "\<not> bcrypt_compare scenario_env ''wrong'' (password ana)"
    by (simp add: scenario_env_def ana_def)
  from post_auth_login_failures [OF _ _ _ _ unknown known wrong, of "''secret1''"]
  have "out (post_auth_login scenario_env [ana]
               \<lparr>login_email = Some ''x@x.com'', login_password = Some ''secret1''\<rparr>)
          = \<lparr>status = 401, body = Msg False ''Invalid email or password''\<rparr>
        \<and> out (post_auth_login scenario_env [ana]
               \<lparr>login_email = Some ''a@x.com'', login_password = Some ''wrong''\<rparr>)
          = \<lparr>status = 401, body = Msg False ''Invalid email or password''\<rparr>"
    by simp
  with unknown known wrong show ?thesis
    by (intro conjI) simp_all
qed

text \<open>
  C5 as stated fails twice. The two failing runs do not do the same work: the
  run with the unknown email ends after the lookup, the run with the wrong
  password also makes the password comparison. And with an empty password the
  unknown email is answered 400 "Email and password are required".
\<close>

theorem post_auth_login_work_counterexample:
  "calls (post_auth_login scenario_env [ana]
            \<lparr>login_email = Some ''x@x.com'', login_password = Some ''wrong''\<rparr>)
     = [FindOneEmail ''x@x.com'']
   \<and> calls (post_auth_login scenario_env [ana]
            \<lparr>login_email = Some ''a@x.com'', login_password = Some ''wrong''\<rparr>)
     = [FindOneEmail ''a@x.com'', BcryptCompare ''wrong'' ''hash:secret1'']
   \<and> out (post_auth_login scenario_env [ana]
            \<lparr>login_email = Some ''x@x.com'', login_password = Some []\<rparr>)
     = \<lparr>status = 400, body = Msg False ''Email and password are required''\<rparr>"
  by (simp add: post_auth_login_def truthy_str_def findOne_email_def ana_def scenario_env_def)

end
